theory Spec2Isabelle
  imports Main "HOL-Library.Sublist"
begin

section \<open>Data model of \<open>pkg/client/init.go\<close>\<close>

text \<open>
  Go's \<open>interface{}\<close> values as they come out of a decoded API object: a JSON tree.
  A \<open>map[string]interface{}\<close> is an association list read with \<open>map_of\<close>.
\<close>

datatype json =
    JNull
  | JBool bool
  | JNum int
  | JStr string
  | JArr "json list"
  | JObj "(string \<times> json) list"

text \<open>The \<open>Object\<close> field of an \<open>unstructured.Unstructured\<close>.\<close>

type_synonym Unstructured = "(string \<times> json) list"

text \<open>
  Errors are values. An API status error carries its reason; \<open>fmt.Errorf\<close> with the verb
  \<open>%v\<close> builds a plain error that holds only its message.
\<close>

datatype StatusReason =
    StatusReasonAlreadyExists
  | StatusReasonNotFound
  | StatusReasonForbidden
  | StatusReasonTimeout
  | StatusReasonUnknown

datatype error =
    StatusError StatusReason string
  | Errorf string

fun IsAlreadyExists :: "error \<Rightarrow> bool" where
  "IsAlreadyExists (StatusError r m) = (r = StatusReasonAlreadyExists)"
| "IsAlreadyExists (Errorf m) = False"

text \<open>A call either returns or panics (a failed type assertion, a nil dereference).\<close>

datatype 'a outcome = Returns 'a | Panics string

record GroupVersionKind =
  Group :: string
  Version :: string
  Kind :: string

record GroupVersionResource =
  Group :: string
  Version :: string
  Resource :: string

datatype rest_Config = RestConfig string

record Client =
  Spoke :: "string list"
  BackupPath :: string
  KubeconfigPath :: string

record ResourceTemplate =
  ResourceName :: string
  Template :: string

record TemplateData =
  ResourceName :: string
  ClusterName :: string
  RecoveryPath :: string

section \<open>The collaborators\<close>

text \<open>
  What the code calls and does not define: the template constants of the package, the
  \<open>text/template\<close> engine, the YAML decoder, the client configuration, the discovery
  service and the dynamic client of the remote API. They are parameters; \<open>'t\<close> is the type
  of a parsed template, \<open>'r\<close> the state of the remote API. \<open>Sleep\<close> is what one second of
  waiting does to the remote side.
\<close>

record ('t, 'r) env =
  commonTemplates :: string
  mngClusterViewJob :: string
  template_Parse :: "string \<Rightarrow> string \<Rightarrow> string + 't"
  template_Execute :: "'t \<Rightarrow> TemplateData \<Rightarrow> string \<times> string option"
  yaml_Decode :: "string \<Rightarrow> error + (Unstructured \<times> GroupVersionKind)"
  BuildConfigFromFlags :: "string \<Rightarrow> error + rest_Config"
  NewDiscoveryClientForConfig :: "rest_Config \<Rightarrow> error option"
  ServerResource :: "GroupVersionKind \<Rightarrow> 'r \<Rightarrow> error + string"
  Create :: "GroupVersionResource \<Rightarrow> string \<Rightarrow> Unstructured \<Rightarrow> 'r \<Rightarrow> error option \<times> 'r"
  Get :: "GroupVersionResource \<Rightarrow> string \<Rightarrow> string \<Rightarrow> 'r \<Rightarrow> (error + Unstructured) \<times> 'r"
  Delete :: "GroupVersionResource \<Rightarrow> string \<Rightarrow> string \<Rightarrow> 'r \<Rightarrow> error option \<times> 'r"
  Sleep :: "'r \<Rightarrow> 'r"

text \<open>
  The state threaded through the code: the remote API and the trace of what was done to
  it, in order. A rendering is traced where the code logs it.
\<close>

datatype event =
    EvRender string
  | EvDiscovery GroupVersionKind
  | EvCreate string GroupVersionResource Unstructured
  | EvGet string GroupVersionResource string
  | EvDelete string GroupVersionResource string

record 'r sys =
  remote :: 'r
  trace :: "event list"

definition emit :: "event \<Rightarrow> 'r sys \<Rightarrow> 'r sys" where
  "emit ev s = s\<lparr>trace := trace s @ [ev]\<rparr>"

definition events_since :: "'r sys \<Rightarrow> 'r sys \<Rightarrow> event list" where
  "events_since s s' = drop (length (trace s)) (trace s')"

fun is_create :: "event \<Rightarrow> bool" where
  "is_create (EvCreate ns gvr obj) = True"
| "is_create ev = False"

fun is_discovery :: "event \<Rightarrow> bool" where
  "is_discovery (EvDiscovery gvk) = True"
| "is_discovery ev = False"

fun is_get :: "event \<Rightarrow> bool" where
  "is_get (EvGet ns gvr name) = True"
| "is_get ev = False"

fun is_delete :: "event \<Rightarrow> bool" where
  "is_delete (EvDelete ns gvr name) = True"
| "is_delete ev = False"

fun is_render :: "event \<Rightarrow> bool" where
  "is_render (EvRender name) = True"
| "is_render ev = False"

section \<open>The templates\<close>

definition ViewCreateTemplates :: "('t, 'r) env \<Rightarrow> ResourceTemplate list" where
  "ViewCreateTemplates E =
     [\<lparr>ResourceTemplate.ResourceName = ''backup-create-clusterview'',
       Template = mngClusterViewJob E\<rparr>]"

section \<open>RenderYamlTemplate\<close>

text \<open>
  Returns the buffer and the error. The buffer is empty when parsing fails and holds what
  \<open>Execute\<close> wrote before it failed otherwise.
\<close>

definition RenderYamlTemplate ::
  "('t, 'r) env \<Rightarrow> string \<Rightarrow> string \<Rightarrow> TemplateData \<Rightarrow> string \<times> error option" where
  "RenderYamlTemplate E resourceName templatebody data =
     (case template_Parse E resourceName (commonTemplates E @ templatebody) of
        Inl perr \<Rightarrow>
          ([], Some (Errorf (''failed to parse template '' @ resourceName @ '': '' @ perr)))
      | Inr tmpl \<Rightarrow>
          (case template_Execute E tmpl (data\<lparr>TemplateData.ResourceName := resourceName\<rparr>) of
             (w, Some xerr) \<Rightarrow>
               (w, Some (Errorf (''failed to render template '' @ resourceName @ '': '' @ xerr)))
           | (w, None) \<Rightarrow> (w, None)))"

section \<open>CreateKubernetesObjects\<close>

definition CreateKubernetesObjects ::
  "('t, 'r) env \<Rightarrow> string \<Rightarrow> Unstructured \<Rightarrow> GroupVersionResource \<Rightarrow> 'r sys
     \<Rightarrow> error option \<times> 'r sys" where
  "CreateKubernetesObjects E clusterName obj resource s =
     (case Create E resource clusterName obj (remote s) of
        (Some err, r') \<Rightarrow> (Some err, emit (EvCreate clusterName resource obj) (s\<lparr>remote := r'\<rparr>))
      | (None, r') \<Rightarrow> (None, emit (EvCreate clusterName resource obj) (s\<lparr>remote := r'\<rparr>)))"

section \<open>The REST mapper\<close>

text \<open>
  \<open>restmapper.NewDeferredDiscoveryRESTMapper (memory.NewMemCacheClient dc)\<close>: a mapper
  that starts with an empty cache, asks the discovery service on a miss and remembers the
  answer.
\<close>

record RESTMapper =
  cache :: "GroupVersionKind \<rightharpoonup> string"

definition NewDeferredDiscoveryRESTMapper :: RESTMapper where
  "NewDeferredDiscoveryRESTMapper = \<lparr>cache = Map.empty\<rparr>"

definition RESTMapping ::
  "('t, 'r) env \<Rightarrow> RESTMapper \<Rightarrow> GroupVersionKind \<Rightarrow> 'r sys
     \<Rightarrow> (error + string) \<times> RESTMapper \<times> 'r sys" where
  "RESTMapping E mapper gvk s =
     (case cache mapper gvk of
        Some res \<Rightarrow> (Inr res, mapper, s)
      | None \<Rightarrow>
          (case ServerResource E gvk (remote s) of
             Inl err \<Rightarrow> (Inl err, mapper, emit (EvDiscovery gvk) s)
           | Inr res \<Rightarrow>
               (Inr res, mapper\<lparr>cache := (cache mapper)(gvk \<mapsto> res)\<rparr>, emit (EvDiscovery gvk) s)))"

section \<open>LaunchKubernetesObjects\<close>

text \<open>The body of the loop, for one template; \<open>newdata\<close> already carries the item's name.\<close>

definition launch_item ::
  "('t, 'r) env \<Rightarrow> string \<Rightarrow> rest_Config \<Rightarrow> TemplateData \<Rightarrow> ResourceTemplate \<Rightarrow> 'r sys
     \<Rightarrow> error option \<times> 'r sys" where
  "launch_item E clusterName config newdata item s =
     (let s1 = emit (EvRender (ResourceTemplate.ResourceName item)) s;
          (w, err) = RenderYamlTemplate E (ResourceTemplate.ResourceName item) (Template item) newdata
      in if err \<noteq> None \<and> \<not> IsAlreadyExists (the err) then (err, s1)
         else
           (case yaml_Decode E w of
              Inl derr \<Rightarrow> (Some derr, s1)
            | Inr (obj, gvk) \<Rightarrow>
                (case NewDiscoveryClientForConfig E config of
                   Some cerr \<Rightarrow> (Some cerr, s1)
                 | None \<Rightarrow>
                     (case RESTMapping E NewDeferredDiscoveryRESTMapper gvk s1 of
                        (Inl merr, mapper, s2) \<Rightarrow> (Some merr, s2)
                      | (Inr res, mapper, s2) \<Rightarrow>
                          CreateKubernetesObjects E clusterName obj
                            \<lparr>GroupVersionResource.Group = GroupVersionKind.Group gvk,
                             Version = GroupVersionKind.Version gvk,
                             Resource = res\<rparr> s2))))"

fun launch_loop ::
  "('t, 'r) env \<Rightarrow> string \<Rightarrow> rest_Config \<Rightarrow> TemplateData \<Rightarrow> ResourceTemplate list \<Rightarrow> 'r sys
     \<Rightarrow> error option \<times> 'r sys" where
  "launch_loop E clusterName config newdata [] s = (None, s)"
| "launch_loop E clusterName config newdata (item # rest) s =
     (let newdata' = newdata\<lparr>TemplateData.ResourceName := ResourceTemplate.ResourceName item\<rparr>
      in case launch_item E clusterName config newdata' item s of
           (Some err, s') \<Rightarrow> (Some err, s')
         | (None, s') \<Rightarrow> launch_loop E clusterName config newdata' rest s')"

definition LaunchKubernetesObjects ::
  "('t, 'r) env \<Rightarrow> Client \<Rightarrow> string \<Rightarrow> ResourceTemplate list \<Rightarrow> 'r sys
     \<Rightarrow> error option \<times> 'r sys" where
  "LaunchKubernetesObjects E c clusterName template s =
     (case BuildConfigFromFlags E (KubeconfigPath c) of
        Inl err \<Rightarrow> (Some err, s)
      | Inr config \<Rightarrow>
          launch_loop E clusterName config
            \<lparr>TemplateData.ResourceName = [], ClusterName = clusterName, RecoveryPath = BackupPath c\<rparr>
            template s)"

section \<open>ManageObjects\<close>

text \<open>
  The result is the pair the Go function returns: the view (nil is \<open>None\<close>) and the error.
  The outer \<open>view\<close> is never assigned, so the return after the loop gives nil.
\<close>

fun manage_loop ::
  "('t, 'r) env \<Rightarrow> string \<Rightarrow> GroupVersionResource \<Rightarrow> string \<Rightarrow> ResourceTemplate list \<Rightarrow> 'r sys
     \<Rightarrow> (Unstructured option \<times> error option) \<times> 'r sys" where
  "manage_loop E clusterName gvr action [] s = ((None, None), s)"
| "manage_loop E clusterName gvr action (items # rest) s =
     (if action = ''get'' then
        (case Get E gvr clusterName (ResourceTemplate.ResourceName items) (remote s) of
           (Inl err, r') \<Rightarrow>
             ((None, Some err),
              emit (EvGet clusterName gvr (ResourceTemplate.ResourceName items)) (s\<lparr>remote := r'\<rparr>))
         | (Inr view, r') \<Rightarrow>
             ((Some view, None),
              emit (EvGet clusterName gvr (ResourceTemplate.ResourceName items)) (s\<lparr>remote := r'\<rparr>)))
      else if action = ''delete'' then
        (case Delete E gvr clusterName (ResourceTemplate.ResourceName items) (remote s) of
           (Some err, r') \<Rightarrow>
             ((None, Some err),
              emit (EvDelete clusterName gvr (ResourceTemplate.ResourceName items)) (s\<lparr>remote := r'\<rparr>))
         | (None, r') \<Rightarrow>
             manage_loop E clusterName gvr action rest
               (emit (EvDelete clusterName gvr (ResourceTemplate.ResourceName items)) (s\<lparr>remote := r'\<rparr>)))
      else ((None, Some (Errorf ''no condition matched'')), s))"

definition ManageObjects ::
  "('t, 'r) env \<Rightarrow> string \<Rightarrow> ResourceTemplate list \<Rightarrow> string \<Rightarrow> string \<Rightarrow> 'r sys
     \<Rightarrow> (Unstructured option \<times> error option) \<times> 'r sys" where
  "ManageObjects E clusterName template resourceType action s =
     manage_loop E clusterName
       \<lparr>GroupVersionResource.Group = ''view.open-cluster-management.io'',
        Version = ''v1beta1'',
        Resource = resourceType\<rparr>
       action template s"

section \<open>CheckViewProcessing\<close>

text \<open>
  The two type assertions of the loop body panic on a condition that is not a map, or
  whose \<open>status\<close> or \<open>message\<close> is missing or not a string.
\<close>

fun view_loop :: "string \<Rightarrow> string \<Rightarrow> json list \<Rightarrow> string outcome" where
  "view_loop status message [] = Returns status"
| "view_loop status message (condition # rest) =
     (case condition of
        JObj m \<Rightarrow>
          (case map_of m ''status'' of
             Some (JStr st) \<Rightarrow>
               (case map_of m ''message'' of
                  Some (JStr msg) \<Rightarrow> view_loop st msg rest
                | _ \<Rightarrow> Panics ''interface conversion: message is not a string'')
           | _ \<Rightarrow> Panics ''interface conversion: status is not a string'')
      | _ \<Rightarrow> Panics ''interface conversion: condition is not a map'')"

definition CheckViewProcessing :: "json list \<Rightarrow> string outcome" where
  "CheckViewProcessing viewConditions = view_loop [] [] viewConditions"

text \<open>The status of a condition of the shape the loop body reads without a panic.\<close>

fun condition_status :: "json \<Rightarrow> string option" where
  "condition_status (JObj m) =
     (case (map_of m ''status'', map_of m ''message'') of
        (Some (JStr st), Some (JStr msg)) \<Rightarrow> Some st
      | _ \<Rightarrow> None)"
| "condition_status c = None"

section \<open>CheckStatus\<close>

text \<open>
  \<open>unstructured.NestedSlice\<close>: walks the fields through nested maps. A missing field or a
  nil on the way is "not found" without an error; a value of the wrong type is an error.
  The library's message prints the path, the value and its Go type; the message here is
  shortened, and only the presence of the error is used.
\<close>

fun NestedFieldNoCopy :: "json \<Rightarrow> string list \<Rightarrow> json \<times> bool \<times> error option" where
  "NestedFieldNoCopy val [] = (val, True, None)"
| "NestedFieldNoCopy val (field # rest) =
     (case val of
        JNull \<Rightarrow> (JNull, False, None)
      | JObj m \<Rightarrow>
          (case map_of m field of
             None \<Rightarrow> (JNull, False, None)
           | Some v \<Rightarrow> NestedFieldNoCopy v rest)
      | _ \<Rightarrow> (JNull, False, Some (Errorf (''accessor error at '' @ field @ '': expected a map''))))"

definition NestedSlice :: "Unstructured \<Rightarrow> string list \<Rightarrow> json list \<times> bool \<times> error option" where
  "NestedSlice obj path =
     (case NestedFieldNoCopy (JObj obj) path of
        (val, found, err) \<Rightarrow>
          if \<not> found \<or> err \<noteq> None then ([], found, err)
          else (case val of
                  JArr xs \<Rightarrow> (xs, True, None)
                | _ \<Rightarrow> ([], False, Some (Errorf ''accessor error: expected a slice''))))"

text \<open>
  The loop \<open>for i := 0; i < 10; i++\<close>. A nil view with a nil error (an empty template
  list) is dereferenced: a panic.
\<close>

function check_loop ::
  "('t, 'r) env \<Rightarrow> string \<Rightarrow> string \<Rightarrow> nat \<Rightarrow> 'r sys \<Rightarrow> error option outcome \<times> 'r sys" where
  "check_loop E resourceType clusterName i s =
     (if i < 10 then
        (case ManageObjects E clusterName (ViewCreateTemplates E) resourceType ''get''
                (s\<lparr>remote := Sleep E (remote s)\<rparr>) of
           ((view, Some err), s1) \<Rightarrow> (Returns (Some err), s1)
         | ((None, None), s1) \<Rightarrow> (Panics ''nil pointer dereference'', s1)
         | ((Some clusterView, None), s1) \<Rightarrow>
             (case NestedSlice clusterView [''status'', ''conditions''] of
                (conditions, exists, Some err) \<Rightarrow> (Returns (Some err), s1)
              | (conditions, exists, None) \<Rightarrow>
                  if \<not> exists then
                    (Returns (Some (Errorf ''couldn't find the intended structure'')), s1)
                  else
                    (case CheckViewProcessing conditions of
                       Panics p \<Rightarrow> (Panics p, s1)
                     | Returns value \<Rightarrow>
                         if value = ''True'' then (Returns None, s1)
                         else check_loop E resourceType clusterName (i + 1) s1)))
      else (Returns None, s))"
  by pat_completeness auto
termination
  by (relation "measure (\<lambda>(E, resourceType, clusterName, i, s). 10 - i)") auto

declare check_loop.simps [simp del]

definition CheckStatus ::
  "('t, 'r) env \<Rightarrow> string \<Rightarrow> string \<Rightarrow> 'r sys \<Rightarrow> error option outcome \<times> 'r sys" where
  "CheckStatus E resourceType clusterName s = check_loop E resourceType clusterName 0 s"

section \<open>A small instance of the collaborators\<close>

text \<open>
  A concrete remote API to run the code on: objects are kept under (collection, namespace,
  name), creating an object that is there answers "already exists", deleting one that is
  not answers "not found". What \<open>Get\<close> answers is scripted by the time of the call, which
  \<open>Sleep\<close> advances: the remote agent fills the view in as time passes.
\<close>

record api_server =
  objects :: "((GroupVersionResource \<times> string \<times> string) \<times> Unstructured) list"
  clock :: nat

definition object_name :: "Unstructured \<Rightarrow> string" where
  "object_name obj =
     (case NestedFieldNoCopy (JObj obj) [''metadata'', ''name''] of
        (JStr n, True, None) \<Rightarrow> n
      | _ \<Rightarrow> [])"

definition demo_Create ::
  "GroupVersionResource \<Rightarrow> string \<Rightarrow> Unstructured \<Rightarrow> api_server \<Rightarrow> error option \<times> api_server" where
  "demo_Create gvr ns obj r =
     (case map_of (objects r) (gvr, ns, object_name obj) of
        Some old \<Rightarrow> (Some (StatusError StatusReasonAlreadyExists (object_name obj)), r)
      | None \<Rightarrow> (None, r\<lparr>objects := objects r @ [((gvr, ns, object_name obj), obj)]\<rparr>))"

definition demo_Delete ::
  "GroupVersionResource \<Rightarrow> string \<Rightarrow> string \<Rightarrow> api_server \<Rightarrow> error option \<times> api_server" where
  "demo_Delete gvr ns name r =
     (case map_of (objects r) (gvr, ns, name) of
        None \<Rightarrow> (Some (StatusError StatusReasonNotFound name), r)
      | Some old \<Rightarrow> (None, r\<lparr>objects := filter (\<lambda>kv. fst kv \<noteq> (gvr, ns, name)) (objects r)\<rparr>))"

definition demo_Parse :: "string \<Rightarrow> string \<Rightarrow> string + string" where
  "demo_Parse name text =
     (if CHR ''!'' \<in> set text then Inl ''unexpected !'' else Inr text)"

definition demo_Execute :: "string \<Rightarrow> TemplateData \<Rightarrow> string \<times> string option" where
  "demo_Execute tmpl data =
     (if CHR ''?'' \<in> set tmpl then ([], Some ''no value for field'')
      else (tmpl @ TemplateData.ResourceName data, None))"

definition demo_Decode :: "string \<Rightarrow> error + (Unstructured \<times> GroupVersionKind)" where
  "demo_Decode w =
     (if CHR ''#'' \<in> set w then Inl (Errorf ''yaml: did not find expected key'')
      else Inr ([(''metadata'', JObj [(''name'', JStr w)])],
                \<lparr>GroupVersionKind.Group = ''action.open-cluster-management.io'',
                 Version = ''v1beta1'',
                 Kind = ''ManagedClusterAction''\<rparr>))"

definition demo_ServerResource :: "GroupVersionKind \<Rightarrow> api_server \<Rightarrow> error + string" where
  "demo_ServerResource gvk r =
     (if Kind gvk = ''ManagedClusterAction'' then Inr ''managedclusteractions''
      else Inl (Errorf ''no matches for kind''))"

definition demo :: "(nat \<Rightarrow> error + Unstructured) \<Rightarrow> (string, api_server) env" where
  "demo script =
     \<lparr>commonTemplates = ''c:'',
      mngClusterViewJob = ''view'',
      template_Parse = demo_Parse,
      template_Execute = demo_Execute,
      yaml_Decode = demo_Decode,
      BuildConfigFromFlags = (\<lambda>path. Inr (RestConfig path)),
      NewDiscoveryClientForConfig = (\<lambda>config. None),
      ServerResource = demo_ServerResource,
      Create = demo_Create,
      Get = (\<lambda>gvr ns name r. (script (clock r), r)),
      Delete = demo_Delete,
      Sleep = (\<lambda>r. r\<lparr>clock := clock r + 1\<rparr>)\<rparr>"

definition start :: "api_server sys" where
  "start = \<lparr>remote = \<lparr>objects = [], clock = 0\<rparr>, trace = []\<rparr>"

definition hub :: Client where
  "hub = \<lparr>Spoke = [''spoke1''], BackupPath = ''/var/recovery'', KubeconfigPath = ''kubeconfig''\<rparr>"

definition condition :: "string \<Rightarrow> json" where
  "condition st = JObj [(''type'', JStr ''Processing''), (''status'', JStr st), (''message'', JStr [])]"

definition view_with :: "json list \<Rightarrow> Unstructured" where
  "view_with conds = [(''status'', JObj [(''conditions'', JArr conds)])]"

definition absent :: "nat \<Rightarrow> error + Unstructured" where
  "absent t = Inl (StatusError StatusReasonNotFound ''backup-create-clusterview'')"

definition never_true :: "nat \<Rightarrow> error + Unstructured" where
  "never_true t = Inr (view_with [condition ''False''])"

definition late_view :: "nat \<Rightarrow> error + Unstructured" where
  "late_view t =
     (if t < 2 then Inl (StatusError StatusReasonNotFound ''backup-create-clusterview'')
      else Inr (view_with [condition ''True'']))"

definition true_then_false :: "nat \<Rightarrow> error + Unstructured" where
  "true_then_false t = Inr (view_with [condition ''True'', condition ''False''])"

definition no_conditions :: "nat \<Rightarrow> error + Unstructured" where
  "no_conditions t = Inr (view_with [])"

definition create_namespace :: ResourceTemplate where
  "create_namespace = \<lparr>ResourceTemplate.ResourceName = ''backup-create-namespace'', Template = ''ns-''\<rparr>"

definition create_serviceaccount :: ResourceTemplate where
  "create_serviceaccount =
     \<lparr>ResourceTemplate.ResourceName = ''backup-create-serviceaccount'', Template = ''sa-''\<rparr>"

definition broken_template :: ResourceTemplate where
  "broken_template = \<lparr>ResourceTemplate.ResourceName = ''backup-create-rolebinding'', Template = ''rb!''\<rparr>"

definition undecodable_rolebinding :: ResourceTemplate where
  "undecodable_rolebinding =
     \<lparr>ResourceTemplate.ResourceName = ''backup-create-rolebinding'', Template = ''rb#''\<rparr>"

definition undecodable_job :: ResourceTemplate where
  "undecodable_job = \<lparr>ResourceTemplate.ResourceName = ''backup-create-job'', Template = ''job#''\<rparr>"

definition delete_ns :: ResourceTemplate where
  "delete_ns = \<lparr>ResourceTemplate.ResourceName = ''backup-delete-ns'', Template = ''del-''\<rparr>"

section \<open>What a dispatch is expected to create\<close>

text \<open>
  The document a template stands for: its rendering, decoded. \<open>RenderYamlTemplate\<close> and the
  decoder read nothing but their arguments, so this is a function of the template alone
  once the cluster name and the recovery path are fixed.
\<close>

definition document_of :: "('t, 'r) env \<Rightarrow> string \<Rightarrow> string \<Rightarrow> ResourceTemplate \<Rightarrow> Unstructured option" where
  "document_of E clusterName recoveryPath item =
     (case RenderYamlTemplate E (ResourceTemplate.ResourceName item) (Template item)
             \<lparr>TemplateData.ResourceName = ResourceTemplate.ResourceName item,
              ClusterName = clusterName, RecoveryPath = recoveryPath\<rparr> of
        (w, Some err) \<Rightarrow> None
      | (w, None) \<Rightarrow>
          (case yaml_Decode E w of
             Inl derr \<Rightarrow> None
           | Inr (obj, gvk) \<Rightarrow> Some obj))"

fun create_target :: "event \<Rightarrow> (string \<times> Unstructured) option" where
  "create_target (EvCreate ns gvr obj) = Some (ns, obj)"
| "create_target ev = None"

definition created :: "event list \<Rightarrow> (string \<times> Unstructured) option list" where
  "created evs = map create_target (filter is_create evs)"

definition expected :: "('t, 'r) env \<Rightarrow> string \<Rightarrow> string \<Rightarrow> ResourceTemplate list
     \<Rightarrow> (string \<times> Unstructured) option list" where
  "expected E clusterName recoveryPath template =
     map (\<lambda>item. map_option (Pair clusterName) (document_of E clusterName recoveryPath item)) template"

text \<open>
  What the calls of a trace do to the remote side when they are made again, in order,
  from a given state: the link between the trace and the remote API.
\<close>

fun replay :: "('t, 'r) env \<Rightarrow> 'r \<Rightarrow> event list \<Rightarrow> 'r" where
  "replay E r [] = r"
| "replay E r (EvCreate ns gvr obj # evs) = replay E (snd (Create E gvr ns obj r)) evs"
| "replay E r (EvGet ns gvr name # evs) = replay E (snd (Get E gvr ns name r)) evs"
| "replay E r (EvDelete ns gvr name # evs) = replay E (snd (Delete E gvr ns name r)) evs"
| "replay E r (EvRender name # evs) = replay E r evs"
| "replay E r (EvDiscovery gvk # evs) = replay E r evs"

section \<open>Auxiliary facts\<close>

lemma events_since_append: "trace s' = trace s @ evs \<Longrightarrow> events_since s s' = evs"
  by (simp add: events_since_def)

lemma view_loop_last:
  "\<forall>c\<in>set cs. condition_status c \<noteq> None \<Longrightarrow>
   view_loop st msg cs = Returns (if cs = [] then st else the (condition_status (last cs)))"
proof (induction cs arbitrary: st msg)
  case Nil
  then show ?case by simp
next
  case (Cons c cs)
  from Cons.prems have wf: "condition_status c \<noteq> None" and rest: "\<forall>c\<in>set cs. condition_status c \<noteq> None"
    by simp_all
  from wf obtain m st' msg' where c: "c = JObj m" "map_of m ''status'' = Some (JStr st')"
      "map_of m ''message'' = Some (JStr msg')"
    by (cases c) (auto split: option.splits json.splits)
  have "view_loop st msg (c # cs) = view_loop st' msg' cs"
    using c by simp
  also have "\<dots> = Returns (if cs = [] then st' else the (condition_status (last cs)))"
    using Cons.IH [OF rest] .
  finally show ?case using c by simp
qed

lemma render_error_plain:
  "RenderYamlTemplate E n b d = (w, Some err) \<Longrightarrow> \<not> IsAlreadyExists err"
  by (auto simp: RenderYamlTemplate_def split: sum.splits prod.splits option.splits)

lemma template_data_eq:
  "(nd :: TemplateData)\<lparr>TemplateData.ResourceName := n\<rparr> =
     \<lparr>TemplateData.ResourceName = n, ClusterName = ClusterName nd, RecoveryPath = RecoveryPath nd\<rparr>"
  by simp

lemma render_canonical:
  "RenderYamlTemplate E n b d =
     RenderYamlTemplate E n b
       \<lparr>TemplateData.ResourceName = n, ClusterName = ClusterName d, RecoveryPath = RecoveryPath d\<rparr>"
proof -
  have e: "d\<lparr>TemplateData.ResourceName := n\<rparr> =
     \<lparr>TemplateData.ResourceName = n, ClusterName = ClusterName d, RecoveryPath = RecoveryPath d\<rparr>
       \<lparr>TemplateData.ResourceName := n\<rparr>"
    by simp
  show ?thesis
    unfolding RenderYamlTemplate_def e by (rule refl)
qed

lemma RESTMapping_fresh:
  "RESTMapping E NewDeferredDiscoveryRESTMapper gvk s = (res, mapper, s') \<Longrightarrow>
     remote s' = remote s \<and> trace s' = trace s @ [EvDiscovery gvk]"
  by (auto simp: RESTMapping_def NewDeferredDiscoveryRESTMapper_def emit_def split: sum.splits)

lemma Create_trace:
  "CreateKubernetesObjects E cl obj gvr s = (r, s') \<Longrightarrow> trace s' = trace s @ [EvCreate cl gvr obj]"
  by (auto simp: CreateKubernetesObjects_def emit_def split: prod.splits option.splits)

lemma launch_item_cases:
  assumes "launch_item E cl cfg nd t s = (r, s')"
  shows "(r \<noteq> None \<and> remote s' = remote s \<and> trace s' = trace s @ [EvRender (ResourceTemplate.ResourceName t)])
       \<or> (\<exists>gvk. r \<noteq> None \<and> remote s' = remote s \<and> 
             trace s' = trace s @ [EvRender (ResourceTemplate.ResourceName t), EvDiscovery gvk])
       \<or> (\<exists>gvk gvr obj. document_of E (ClusterName nd) (RecoveryPath nd) t = Some obj \<and>
             trace s' = trace s @ [EvRender (ResourceTemplate.ResourceName t), EvDiscovery gvk, EvCreate cl gvr obj])"
proof -
  obtain w err where rn: "RenderYamlTemplate E (ResourceTemplate.ResourceName t) (Template t) nd = (w, err)"
    by (cases "RenderYamlTemplate E (ResourceTemplate.ResourceName t) (Template t) nd")
  have rn': "RenderYamlTemplate E (ResourceTemplate.ResourceName t) (Template t)
       \<lparr>TemplateData.ResourceName = ResourceTemplate.ResourceName t, ClusterName = ClusterName nd, 
        RecoveryPath = RecoveryPath nd\<rparr> = (w, err)"
    using rn render_canonical [of E "ResourceTemplate.ResourceName t" "Template t" nd] by simp
  show ?thesis
  proof (cases err)
    case (Some e)
    then have "\<not> IsAlreadyExists e" using rn render_error_plain by blast
    with Some rn assms show ?thesis
      by (auto simp: launch_item_def emit_def)
  next
    case None
    with rn rn' assms show ?thesis
      by (auto simp: launch_item_def emit_def document_of_def Let_def
          split: sum.splits option.splits prod.splits
          dest!: RESTMapping_fresh Create_trace)
  qed
qed

lemma launch_item_ok:
  assumes "launch_item E cl cfg nd t s = (None, s')"
  shows "\<exists>gvk gvr obj. document_of E (ClusterName nd) (RecoveryPath nd) t = Some obj \<and>
             trace s' = trace s @ [EvRender (ResourceTemplate.ResourceName t), EvDiscovery gvk, EvCreate cl gvr obj]"
  using launch_item_cases [OF assms] by auto


lemma launch_loop_name_irrelevant:
  "launch_loop E cl cfg (nd\<lparr>TemplateData.ResourceName := x\<rparr>) ts s = launch_loop E cl cfg nd ts s"
  by (cases ts) simp_all

lemma launch_loop_append:
  "launch_loop E cl cfg nd (pre @ post) s =
     (case launch_loop E cl cfg nd pre s of
        (Some err, s1) \<Rightarrow> (Some err, s1)
      | (None, s1) \<Rightarrow> launch_loop E cl cfg nd post s1)"
proof (induction pre arbitrary: nd s)
  case Nil
  show ?case by simp
next
  case (Cons t pre)
  let ?nd = "nd\<lparr>TemplateData.ResourceName := ResourceTemplate.ResourceName t\<rparr>"
  show ?case
  proof (cases "launch_item E cl cfg ?nd t s")
    case (Pair r1 s1)
    then show ?thesis
      by (cases r1) (simp_all add: Cons.IH launch_loop_name_irrelevant)
  qed
qed

lemma created_append: "created (xs @ ys) = created xs @ created ys"
  by (simp add: created_def)

lemma launch_loop_events:
  assumes "launch_loop E cl cfg nd ts s = (r, s')"
  shows "\<exists>evs. trace s' = trace s @ evs
           \<and> (\<forall>ev\<in>set evs. \<not> is_delete ev)
           \<and> prefix (created evs)
                (map (\<lambda>t. map_option (Pair cl) (document_of E (ClusterName nd) (RecoveryPath nd) t)) ts)
           \<and> prefix (filter is_render evs) (map (\<lambda>t. EvRender (ResourceTemplate.ResourceName t)) ts)
           \<and> (r = None \<longrightarrow>
                created evs =
                  map (\<lambda>t. map_option (Pair cl) (document_of E (ClusterName nd) (RecoveryPath nd) t)) ts
                \<and> filter is_render evs = map (\<lambda>t. EvRender (ResourceTemplate.ResourceName t)) ts
                \<and> length (filter is_discovery evs) = length ts)"
  using assms
proof (induction ts arbitrary: nd s)
  case Nil
  then show ?case by (simp add: created_def)
next
  case (Cons t ts)
  let ?nd = "nd\<lparr>TemplateData.ResourceName := ResourceTemplate.ResourceName t\<rparr>"
  obtain r1 s1 where item: "launch_item E cl cfg ?nd t s = (r1, s1)"
    by (cases "launch_item E cl cfg ?nd t s")
  note cases = launch_item_cases [OF item]
  show ?case
  proof (cases r1)
    case (Some err)
    with item Cons.prems have res: "r = Some err" "s' = s1" by simp_all
    from cases Some res show ?thesis
      by (auto simp: created_def)
  next
    case None
    with item Cons.prems have rest: "launch_loop E cl cfg ?nd ts s1 = (r, s')" by simp
    from launch_item_ok [OF item [unfolded None]]
    obtain gvk gvr obj where doc: "document_of E (ClusterName nd) (RecoveryPath nd) t = Some obj"
      and tr1: "trace s1 = trace s @ [EvRender (ResourceTemplate.ResourceName t), EvDiscovery gvk, EvCreate cl gvr obj]"
      by auto
    from Cons.IH [OF rest] obtain evs where
      tr2: "trace s' = trace s1 @ evs" and nodel: "\<forall>ev\<in>set evs. \<not> is_delete ev"
      and pc: "prefix (created evs)
                (map (\<lambda>t. map_option (Pair cl) (document_of E (ClusterName nd) (RecoveryPath nd) t)) ts)"
      and pr: "prefix (filter is_render evs) (map (\<lambda>t. EvRender (ResourceTemplate.ResourceName t)) ts)"
      and ok: "r = None \<longrightarrow>
                created evs =
                  map (\<lambda>t. map_option (Pair cl) (document_of E (ClusterName nd) (RecoveryPath nd) t)) ts
                \<and> filter is_render evs = map (\<lambda>t. EvRender (ResourceTemplate.ResourceName t)) ts
                \<and> length (filter is_discovery evs) = length ts"
      by auto
    let ?evs = "[EvRender (ResourceTemplate.ResourceName t), EvDiscovery gvk, EvCreate cl gvr obj] @ evs"
    have "trace s' = trace s @ ?evs" using tr1 tr2 by simp
    moreover have "\<forall>ev\<in>set ?evs. \<not> is_delete ev" using nodel by simp
    moreover have "created ?evs = Some (cl, obj) # created evs" by (simp add: created_def)
    moreover have "filter is_render ?evs = EvRender (ResourceTemplate.ResourceName t) # filter is_render evs"
      by simp
    moreover have "length (filter is_discovery ?evs) = Suc (length (filter is_discovery evs))" by simp
    ultimately show ?thesis using pc pr ok doc
      by (intro exI [of _ ?evs]) simp
  qed
qed

lemma manage_get:
  "ManageObjects E cl (ViewCreateTemplates E) rt ''get'' s =
     (case Get E \<lparr>GroupVersionResource.Group = ''view.open-cluster-management.io'',
                  Version = ''v1beta1'', Resource = rt\<rparr> cl ''backup-create-clusterview'' (remote s) of
        (Inl err, r') \<Rightarrow>
          ((None, Some err),
           emit (EvGet cl \<lparr>GroupVersionResource.Group = ''view.open-cluster-management.io'',
                  Version = ''v1beta1'', Resource = rt\<rparr> ''backup-create-clusterview'') (s\<lparr>remote := r'\<rparr>))
      | (Inr view, r') \<Rightarrow>
          ((Some view, None),
           emit (EvGet cl \<lparr>GroupVersionResource.Group = ''view.open-cluster-management.io'',
                  Version = ''v1beta1'', Resource = rt\<rparr> ''backup-create-clusterview'') (s\<lparr>remote := r'\<rparr>)))"
  by (simp add: ManageObjects_def ViewCreateTemplates_def split: prod.splits sum.splits)

lemma check_loop_fetch_error:
  assumes "i < 10"
    and "ManageObjects E cl (ViewCreateTemplates E) rt ''get'' (s\<lparr>remote := Sleep E (remote s)\<rparr>)
           = ((view, Some err), s1)"
  shows "check_loop E rt cl i s = (Returns (Some err), s1)"
  using assms by (subst check_loop.simps) (simp split: option.splits)

lemma check_loop_classify:
  assumes "i < 10"
    and "ManageObjects E cl (ViewCreateTemplates E) rt ''get'' (s\<lparr>remote := Sleep E (remote s)\<rparr>)
           = ((Some view, None), s1)"
    and "NestedSlice view [''status'', ''conditions''] = (conds, True, None)"
    and "CheckViewProcessing conds = Returns v"
  shows "check_loop E rt cl i s =
           (if v = ''True'' then (Returns None, s1) else check_loop E rt cl (i + 1) s1)"
  using assms by (subst check_loop.simps) simp

lemma CheckViewProcessing_last:
  "\<forall>c\<in>set cs. condition_status c \<noteq> None \<Longrightarrow>
   CheckViewProcessing cs = Returns (if cs = [] then [] else the (condition_status (last cs)))"
  unfolding CheckViewProcessing_def by (rule view_loop_last)


lemma view_loop_panics:
  assumes "c \<in> set cs" and "condition_status c = None"
  shows "\<exists>p. view_loop st msg cs = Panics p"
  using assms
proof (induction cs arbitrary: st msg)
  case Nil
  then show ?case by simp
next
  case (Cons d cs)
  show ?case
  proof (cases "condition_status d")
    case None
    then show ?thesis
      by (cases d) (auto split: option.splits json.splits)
  next
    case (Some st')
    then obtain m msg' where d: "d = JObj m" "map_of m ''status'' = Some (JStr st')"
        "map_of m ''message'' = Some (JStr msg')"
      by (cases d) (auto split: option.splits json.splits)
    from Some Cons.prems have "c \<in> set cs" by auto
    from Cons.IH [OF this Cons.prems(2)] d show ?thesis by simp
  qed
qed

lemma CheckViewProcessing_panics:
  "c \<in> set cs \<Longrightarrow> condition_status c = None \<Longrightarrow> \<exists>p. CheckViewProcessing cs = Panics p"
  unfolding CheckViewProcessing_def by (rule view_loop_panics)

lemma one_get:
  "length (filter is_get (events_since s (emit (EvGet cl gvr name) (s\<lparr>remote := r'\<rparr>)))) = 1"
  by (simp add: events_since_def emit_def)

section \<open>The status poller\<close>

text \<open>
  Claim C6 (last-condition tie-break). An attempt of the poller that reads a non-empty list
  of conditions, each with a string status and a string message, is decided by the status
  of the last element alone: \<open>CheckViewProcessing\<close> returns that status; if it is
  \<open>"True"\<close> the loop stops there with no error, and for any other value the loop goes on
  to the next attempt, whatever the statuses of the earlier conditions. (On a list with an
  element of another shape the type assertions panic: \<open>CheckViewProcessing_panics\<close>.)
\<close>

theorem last_condition_decides:
  assumes "i < 10"
    and "ManageObjects E cl (ViewCreateTemplates E) rt ''get'' (s\<lparr>remote := Sleep E (remote s)\<rparr>)
           = ((Some view, None), s1)"
    and "NestedSlice view [''status'', ''conditions''] = (conds, True, None)"
    and "conds \<noteq> []"
    and "\<forall>c\<in>set conds. condition_status c \<noteq> None"
  shows "CheckViewProcessing conds = Returns (the (condition_status (last conds)))
       \<and> check_loop E rt cl i s =
           (if the (condition_status (last conds)) = ''True'' then (Returns None, s1)
            else check_loop E rt cl (i + 1) s1)"
proof -
  have v: "CheckViewProcessing conds = Returns (the (condition_status (last conds)))"
    using CheckViewProcessing_last [OF assms(5)] assms(4) by simp
  from check_loop_classify [OF assms(1) assms(2) assms(3) v] v show ?thesis
    by simp
qed

theorem last_condition_decides_witness:
  "CheckViewProcessing [condition ''True'', condition ''False''] = Returns ''False''
   \<and> check_loop (demo true_then_false) ''managedclusterviews'' ''spoke1'' 0 start =
       check_loop (demo true_then_false) ''managedclusterviews'' ''spoke1'' 1
         (emit (EvGet ''spoke1''
                 \<lparr>GroupVersionResource.Group = ''view.open-cluster-management.io'',
                  Version = ''v1beta1'', Resource = ''managedclusterviews''\<rparr>
                 ''backup-create-clusterview'')
            (start\<lparr>remote := \<lparr>objects = [], clock = 1\<rparr>\<rparr>))"
proof -
  let ?E = "demo true_then_false"
  let ?conds = "[condition ''True'', condition ''False'']"
  let ?s1 = "emit (EvGet ''spoke1''
                 \<lparr>GroupVersionResource.Group = ''view.open-cluster-management.io'',
                  Version = ''v1beta1'', Resource = ''managedclusterviews''\<rparr>
                 ''backup-create-clusterview'')
            (start\<lparr>remote := \<lparr>objects = [], clock = 1\<rparr>\<rparr>)"
  have h1: "(0::nat) < 10" by simp
  have h2: "ManageObjects ?E ''spoke1'' (ViewCreateTemplates ?E) ''managedclusterviews'' ''get''
              (start\<lparr>remote := Sleep ?E (remote start)\<rparr>) = ((Some (view_with ?conds), None), ?s1)"
    by (simp add: manage_get demo_def start_def true_then_false_def)
  have h3: "NestedSlice (view_with ?conds) [''status'', ''conditions''] = (?conds, True, None)"
    by (simp add: NestedSlice_def view_with_def)
  have h4: "?conds \<noteq> []" by simp
  have h5: "\<forall>c\<in>set ?conds. condition_status c \<noteq> None" by (simp add: condition_def)
  from last_condition_decides [OF h1 h2 h3 h4 h5] show ?thesis
    by (simp add: condition_def)
qed

text \<open>
  Claim C10 (empty condition list). On an empty list \<open>CheckViewProcessing\<close> returns the
  empty string, which is not \<open>"True"\<close>, so an attempt that reads an empty list of conditions
  does not stop the loop; on a non-empty list of conditions, each with a string status and
  a string message, it returns exactly the status of the last one.
\<close>

theorem empty_conditions_not_converged:
  "CheckViewProcessing [] = Returns []
   \<and> (cs \<noteq> [] \<and> (\<forall>c\<in>set cs. condition_status c \<noteq> None) \<longrightarrow>
        CheckViewProcessing cs = Returns (the (condition_status (last cs))))
   \<and> (i < 10
        \<and> ManageObjects E cl (ViewCreateTemplates E) rt ''get'' (s\<lparr>remote := Sleep E (remote s)\<rparr>)
            = ((Some view, None), s1)
        \<and> NestedSlice view [''status'', ''conditions''] = ([], True, None) \<longrightarrow>
        check_loop E rt cl i s = check_loop E rt cl (i + 1) s1)"
proof (intro conjI impI)
  show e: "CheckViewProcessing [] = Returns []"
    by (simp add: CheckViewProcessing_def)
  show "CheckViewProcessing cs = Returns (the (condition_status (last cs)))"
    if "cs \<noteq> [] \<and> (\<forall>c\<in>set cs. condition_status c \<noteq> None)"
    using that CheckViewProcessing_last [of cs] by simp
  show "check_loop E rt cl i s = check_loop E rt cl (i + 1) s1"
    if h: "i < 10
        \<and> ManageObjects E cl (ViewCreateTemplates E) rt ''get'' (s\<lparr>remote := Sleep E (remote s)\<rparr>)
            = ((Some view, None), s1)
        \<and> NestedSlice view [''status'', ''conditions''] = ([], True, None)"
  proof -
    from h have a: "i < 10"
      and b: "ManageObjects E cl (ViewCreateTemplates E) rt ''get'' (s\<lparr>remote := Sleep E (remote s)\<rparr>)
            = ((Some view, None), s1)"
      and c: "NestedSlice view [''status'', ''conditions''] = ([], True, None)"
      by simp_all
    from check_loop_classify [OF a b c e] show ?thesis by simp
  qed
qed

theorem empty_conditions_not_converged_witness:
  "CheckViewProcessing [] = Returns []
   \<and> CheckViewProcessing [condition ''False'', condition ''True''] = Returns ''True''
   \<and> check_loop (demo no_conditions) ''managedclusterviews'' ''spoke1'' 0 start =
       check_loop (demo no_conditions) ''managedclusterviews'' ''spoke1'' 1
         (emit (EvGet ''spoke1''
                 \<lparr>GroupVersionResource.Group = ''view.open-cluster-management.io'',
                  Version = ''v1beta1'', Resource = ''managedclusterviews''\<rparr>
                 ''backup-create-clusterview'')
            (start\<lparr>remote := \<lparr>objects = [], clock = 1\<rparr>\<rparr>))"
proof -
  let ?E = "demo no_conditions"
  let ?cs = "[condition ''False'', condition ''True'']"
  let ?s1 = "emit (EvGet ''spoke1''
                 \<lparr>GroupVersionResource.Group = ''view.open-cluster-management.io'',
                  Version = ''v1beta1'', Resource = ''managedclusterviews''\<rparr>
                 ''backup-create-clusterview'')
            (start\<lparr>remote := \<lparr>objects = [], clock = 1\<rparr>\<rparr>)"
  have h1: "?cs \<noteq> [] \<and> (\<forall>c\<in>set ?cs. condition_status c \<noteq> None)"
    by (simp add: condition_def)
  have h2: "(0::nat) < 10
        \<and> ManageObjects ?E ''spoke1'' (ViewCreateTemplates ?E) ''managedclusterviews'' ''get''
              (start\<lparr>remote := Sleep ?E (remote start)\<rparr>) = ((Some (view_with []), None), ?s1)
        \<and> NestedSlice (view_with []) [''status'', ''conditions''] = ([], True, None)"
    by (simp add: manage_get demo_def start_def no_conditions_def NestedSlice_def view_with_def)
  from empty_conditions_not_converged [of ?cs 0 ?E "''spoke1''" "''managedclusterviews''" start
      "view_with []" ?s1] h1 h2
  show ?thesis by (simp add: condition_def)
qed

lemma check_loop_exhausts:
  assumes pending: "\<forall>r. \<exists>view r' conds v.
      Get E \<lparr>GroupVersionResource.Group = ''view.open-cluster-management.io'',
              Version = ''v1beta1'', Resource = rt\<rparr> cl ''backup-create-clusterview'' r = (Inr view, r')
      \<and> NestedSlice view [''status'', ''conditions''] = (conds, True, None)
      \<and> CheckViewProcessing conds = Returns v \<and> v \<noteq> ''True''"
  shows "\<exists>s' evs. check_loop E rt cl i s = (Returns None, s') \<and> trace s' = trace s @ evs
           \<and> length (filter is_get evs) = 10 - i"
proof (induction "10 - i" arbitrary: i s)
  case 0
  then have "\<not> i < 10" by simp
  then have "check_loop E rt cl i s = (Returns None, s)"
    by (subst check_loop.simps) simp
  with 0 show ?case by simp
next
  case (Suc n)
  then have i: "i < 10" and n: "n = 10 - (i + 1)" by simp_all
  let ?gvr = "\<lparr>GroupVersionResource.Group = ''view.open-cluster-management.io'',
              Version = ''v1beta1'', Resource = rt\<rparr>"
  from pending obtain view r' conds v where
    g: "Get E ?gvr cl ''backup-create-clusterview'' (Sleep E (remote s)) = (Inr view, r')"
    and ns: "NestedSlice view [''status'', ''conditions''] = (conds, True, None)"
    and cv: "CheckViewProcessing conds = Returns v" and v: "v \<noteq> ''True''"
    by blast
  let ?s1 = "emit (EvGet cl ?gvr ''backup-create-clusterview'') (s\<lparr>remote := r'\<rparr>)"
  have m: "ManageObjects E cl (ViewCreateTemplates E) rt ''get'' (s\<lparr>remote := Sleep E (remote s)\<rparr>)
             = ((Some view, None), ?s1)"
    using g by (simp add: manage_get)
  have step: "check_loop E rt cl i s = check_loop E rt cl (i + 1) ?s1"
    using check_loop_classify [OF i m ns cv] v by simp
  from Suc.hyps(1) [OF n, of ?s1] obtain s' evs where
    r: "check_loop E rt cl (i + 1) ?s1 = (Returns None, s')" and t: "trace s' = trace ?s1 @ evs"
    and l: "length (filter is_get evs) = 10 - (i + 1)"
    by blast
  have "trace s' = trace s @ (EvGet cl ?gvr ''backup-create-clusterview'' # evs)"
    using t by (simp add: emit_def)
  moreover have "length (filter is_get (EvGet cl ?gvr ''backup-create-clusterview'' # evs)) = 10 - i"
    using l i by simp
  ultimately show ?case using step r by (intro exI [of _ s'] exI [of _ "EvGet cl ?gvr ''backup-create-clusterview'' # evs"]) simp
qed

text \<open>
  Claim C2 (poll timeout verdict). The claim asks for a timeout error after the tenth
  attempt. Run on a view whose only condition has status \<open>"False"\<close> at every attempt,
  \<open>CheckStatus\<close> fetches the view ten times and then returns nil: the code after the loop
  is \<open>return nil\<close> whether or not the loop was left by \<open>break\<close>.
\<close>

theorem CheckStatus_never_true_returns_nil:
  "fst (CheckStatus (demo never_true) ''managedclusterviews'' ''spoke1'' start) = Returns None
   \<and> length (filter is_get
        (events_since start (snd (CheckStatus (demo never_true) ''managedclusterviews'' ''spoke1'' start))))
       = 10"
proof -
  have "\<forall>r. \<exists>view r' conds v.
      Get (demo never_true) \<lparr>GroupVersionResource.Group = ''view.open-cluster-management.io'',
              Version = ''v1beta1'', Resource = ''managedclusterviews''\<rparr> ''spoke1''
          ''backup-create-clusterview'' r = (Inr view, r')
      \<and> NestedSlice view [''status'', ''conditions''] = (conds, True, None)
      \<and> CheckViewProcessing conds = Returns v \<and> v \<noteq> ''True''"
    by (simp add: demo_def never_true_def NestedSlice_def view_with_def CheckViewProcessing_def
          condition_def)
  from check_loop_exhausts [OF this, of 0 start] obtain s' evs where
    "check_loop (demo never_true) ''managedclusterviews'' ''spoke1'' 0 start = (Returns None, s')"
    "trace s' = trace start @ evs" "length (filter is_get evs) = 10"
    by auto
  then show ?thesis
    by (simp add: CheckStatus_def events_since_def)
qed

text \<open>
  Claim C3 (transient errors in the poller), as the code has it. An attempt whose fetch of
  the view fails returns that very error from \<open>CheckStatus\<close> at once: the call is the last
  one made, and the attempts that were left are not used.
\<close>

theorem fetch_error_returned_at_once:
  assumes "i < 10"
    and "Get E \<lparr>GroupVersionResource.Group = ''view.open-cluster-management.io'',
                Version = ''v1beta1'', Resource = rt\<rparr> cl ''backup-create-clusterview''
           (Sleep E (remote s)) = (Inl err, r')"
  shows "check_loop E rt cl i s =
           (Returns (Some err),
            emit (EvGet cl \<lparr>GroupVersionResource.Group = ''view.open-cluster-management.io'',
                            Version = ''v1beta1'', Resource = rt\<rparr> ''backup-create-clusterview'')
              (s\<lparr>remote := r'\<rparr>))
         \<and> length (filter is_get (events_since s (snd (check_loop E rt cl i s)))) = 1"
proof -
  let ?gvr = "\<lparr>GroupVersionResource.Group = ''view.open-cluster-management.io'',
              Version = ''v1beta1'', Resource = rt\<rparr>"
  let ?s1 = "emit (EvGet cl ?gvr ''backup-create-clusterview'') (s\<lparr>remote := r'\<rparr>)"
  have m: "ManageObjects E cl (ViewCreateTemplates E) rt ''get'' (s\<lparr>remote := Sleep E (remote s)\<rparr>)
             = ((None, Some err), ?s1)"
    using assms(2) by (simp add: manage_get)
  have "check_loop E rt cl i s = (Returns (Some err), ?s1)"
    by (rule check_loop_fetch_error [OF assms(1) m])
  then show ?thesis by (simp add: one_get)
qed

theorem fetch_error_returned_at_once_witness:
  "check_loop (demo absent) ''managedclusterviews'' ''spoke1'' 0 start =
     (Returns (Some (StatusError StatusReasonNotFound ''backup-create-clusterview'')),
      emit (EvGet ''spoke1'' \<lparr>GroupVersionResource.Group = ''view.open-cluster-management.io'',
                            Version = ''v1beta1'', Resource = ''managedclusterviews''\<rparr>
              ''backup-create-clusterview'')
        (start\<lparr>remote := \<lparr>objects = [], clock = 1\<rparr>\<rparr>))
   \<and> length (filter is_get (events_since start
        (snd (check_loop (demo absent) ''managedclusterviews'' ''spoke1'' 0 start)))) = 1"
proof -
  have h1: "(0::nat) < 10" by simp
  have h2: "Get (demo absent) \<lparr>GroupVersionResource.Group = ''view.open-cluster-management.io'',
                Version = ''v1beta1'', Resource = ''managedclusterviews''\<rparr> ''spoke1''
              ''backup-create-clusterview'' (Sleep (demo absent) (remote start))
            = (Inl (StatusError StatusReasonNotFound ''backup-create-clusterview''),
               \<lparr>objects = [], clock = 1\<rparr>)"
    by (simp add: demo_def absent_def start_def)
  from fetch_error_returned_at_once [OF h1 h2] show ?thesis .
qed

text \<open>
  Claim C3 as stated fails. The view is not there at the first attempt and would carry a
  last condition \<open>"True"\<close> from the second on; \<open>CheckStatus\<close> returns the "not found" of
  the first fetch after one attempt.
\<close>

theorem transient_error_surfaced:
  "late_view 1 = Inl (StatusError StatusReasonNotFound ''backup-create-clusterview'')
   \<and> late_view 2 = Inr (view_with [condition ''True''])
   \<and> fst (CheckStatus (demo late_view) ''managedclusterviews'' ''spoke1'' start) =
       Returns (Some (StatusError StatusReasonNotFound ''backup-create-clusterview''))
   \<and> length (filter is_get (events_since start
        (snd (CheckStatus (demo late_view) ''managedclusterviews'' ''spoke1'' start)))) = 1"
proof -
  let ?gvr = "\<lparr>GroupVersionResource.Group = ''view.open-cluster-management.io'',
                Version = ''v1beta1'', Resource = ''managedclusterviews''\<rparr>"
  let ?s1 = "emit (EvGet ''spoke1'' ?gvr ''backup-create-clusterview'')
               (start\<lparr>remote := \<lparr>objects = [], clock = 1\<rparr>\<rparr>)"
  have m: "ManageObjects (demo late_view) ''spoke1'' (ViewCreateTemplates (demo late_view))
             ''managedclusterviews'' ''get''
             (start\<lparr>remote := Sleep (demo late_view) (remote start)\<rparr>)
           = ((None, Some (StatusError StatusReasonNotFound ''backup-create-clusterview'')), ?s1)"
    by (simp add: manage_get demo_def late_view_def start_def)
  have "check_loop (demo late_view) ''managedclusterviews'' ''spoke1'' 0 start =
          (Returns (Some (StatusError StatusReasonNotFound ''backup-create-clusterview'')), ?s1)"
    by (rule check_loop_fetch_error [OF _ m]) simp
  then show ?thesis
    by (simp add: CheckStatus_def late_view_def one_get)
qed

section \<open>Teardown\<close>

text \<open>
  Claim C7 (teardown), as the code has it. In delete mode \<open>ManageObjects\<close> returns the
  error of a delete call, whatever its reason, at once and leaves the templates after it;
  when the call succeeds it goes on with the next template, and with no template left it
  returns no error.
\<close>

theorem delete_error_returned:
  "(Delete E \<lparr>GroupVersionResource.Group = ''view.open-cluster-management.io'',
               Version = ''v1beta1'', Resource = rt\<rparr> cl (ResourceTemplate.ResourceName item) (remote s)
      = (Some err, r') \<longrightarrow>
    ManageObjects E cl (item # rest) rt ''delete'' s =
      ((None, Some err),
       emit (EvDelete cl \<lparr>GroupVersionResource.Group = ''view.open-cluster-management.io'',
               Version = ''v1beta1'', Resource = rt\<rparr> (ResourceTemplate.ResourceName item))
         (s\<lparr>remote := r'\<rparr>)))
   \<and> (Delete E \<lparr>GroupVersionResource.Group = ''view.open-cluster-management.io'',
               Version = ''v1beta1'', Resource = rt\<rparr> cl (ResourceTemplate.ResourceName item) (remote s)
      = (None, r') \<longrightarrow>
    ManageObjects E cl (item # rest) rt ''delete'' s =
      ManageObjects E cl rest rt ''delete''
        (emit (EvDelete cl \<lparr>GroupVersionResource.Group = ''view.open-cluster-management.io'',
               Version = ''v1beta1'', Resource = rt\<rparr> (ResourceTemplate.ResourceName item))
           (s\<lparr>remote := r'\<rparr>)))
   \<and> ManageObjects E cl [] rt ''delete'' s = ((None, None), s)"
  by (simp add: ManageObjects_def)

theorem delete_error_returned_witness:
  "ManageObjects (demo absent) ''spoke1'' [delete_ns, create_namespace] ''managedclusteractions'' ''delete'' start =
      ((None, Some (StatusError StatusReasonNotFound ''backup-delete-ns'')),
       emit (EvDelete ''spoke1'' \<lparr>GroupVersionResource.Group = ''view.open-cluster-management.io'',
               Version = ''v1beta1'', Resource = ''managedclusteractions''\<rparr> ''backup-delete-ns'') start)"
proof -
  have h: "Delete (demo absent) \<lparr>GroupVersionResource.Group = ''view.open-cluster-management.io'',
               Version = ''v1beta1'', Resource = ''managedclusteractions''\<rparr> ''spoke1''
             (ResourceTemplate.ResourceName delete_ns) (remote start)
           = (Some (StatusError StatusReasonNotFound ''backup-delete-ns''), remote start)"
    by (simp add: demo_def demo_Delete_def start_def delete_ns_def)
  have n: "ResourceTemplate.ResourceName delete_ns = ''backup-delete-ns''"
    by (simp add: delete_ns_def)
  from delete_error_returned [of "demo absent" "''managedclusteractions''" "''spoke1''" delete_ns start
      "StatusError StatusReasonNotFound ''backup-delete-ns''" "remote start" "[create_namespace]"] h n
  show ?thesis by simp
qed

text \<open>
  Claim C7 as stated fails. With nothing on the remote side, deleting the one target of
  the list answers "not found", and \<open>ManageObjects\<close> returns that error.
\<close>

theorem delete_not_found_is_an_error:
  "remote start = \<lparr>objects = [], clock = 0\<rparr>
   \<and> fst (ManageObjects (demo absent) ''spoke1'' [delete_ns] ''managedclusteractions'' ''delete'' start)
       = (None, Some (StatusError StatusReasonNotFound ''backup-delete-ns''))"
  by (simp add: ManageObjects_def demo_def demo_Delete_def start_def delete_ns_def)

section \<open>The renderer\<close>

text \<open>
  Claim C9 (renderer contract). \<open>RenderYamlTemplate\<close> parses the common templates followed
  by the body under the resource's name. When parsing fails it returns an error whose
  message names the template; when executing the parsed template (on the data with the
  resource name set) fails it returns an error whose message names the template;
  otherwise it returns what was written, with no error. It returns an error in these two
  cases only, and its result depends on nothing but its arguments, the template engine
  and the common templates.
\<close>

theorem renderer_contract:
  "(\<forall>perr. template_Parse E resourceName (commonTemplates E @ templatebody) = Inl perr \<longrightarrow>
      RenderYamlTemplate E resourceName templatebody data =
        ([], Some (Errorf (''failed to parse template '' @ resourceName @ '': '' @ perr))))
   \<and> (\<forall>tmpl w xerr.
        template_Parse E resourceName (commonTemplates E @ templatebody) = Inr tmpl
        \<and> template_Execute E tmpl (data\<lparr>TemplateData.ResourceName := resourceName\<rparr>) = (w, Some xerr) \<longrightarrow>
      RenderYamlTemplate E resourceName templatebody data =
        (w, Some (Errorf (''failed to render template '' @ resourceName @ '': '' @ xerr))))
   \<and> (\<forall>tmpl w.
        template_Parse E resourceName (commonTemplates E @ templatebody) = Inr tmpl
        \<and> template_Execute E tmpl (data\<lparr>TemplateData.ResourceName := resourceName\<rparr>) = (w, None) \<longrightarrow>
      RenderYamlTemplate E resourceName templatebody data = (w, None))
   \<and> (snd (RenderYamlTemplate E resourceName templatebody data) \<noteq> None \<longleftrightarrow>
        (\<exists>perr. template_Parse E resourceName (commonTemplates E @ templatebody) = Inl perr)
        \<or> (\<exists>tmpl w xerr.
             template_Parse E resourceName (commonTemplates E @ templatebody) = Inr tmpl
             \<and> template_Execute E tmpl (data\<lparr>TemplateData.ResourceName := resourceName\<rparr>) = (w, Some xerr)))
   \<and> (\<forall>E' :: ('t, 'r) env.
        template_Parse E' = template_Parse E \<and> template_Execute E' = template_Execute E
        \<and> commonTemplates E' = commonTemplates E \<longrightarrow>
        RenderYamlTemplate E' resourceName templatebody data =
          RenderYamlTemplate E resourceName templatebody data)"
proof -
  have same: "\<forall>E' :: ('t, 'r) env.
        template_Parse E' = template_Parse E \<and> template_Execute E' = template_Execute E
        \<and> commonTemplates E' = commonTemplates E \<longrightarrow>
        RenderYamlTemplate E' resourceName templatebody data =
          RenderYamlTemplate E resourceName templatebody data"
    by (simp add: RenderYamlTemplate_def split: sum.splits)
  show ?thesis
  proof (cases "template_Parse E resourceName (commonTemplates E @ templatebody)")
    case (Inl perr)
    with same show ?thesis by (simp add: RenderYamlTemplate_def)
  next
    case (Inr tmpl)
    obtain w x where ex: "template_Execute E tmpl (data\<lparr>TemplateData.ResourceName := resourceName\<rparr>) = (w, x)"
      by (cases "template_Execute E tmpl (data\<lparr>TemplateData.ResourceName := resourceName\<rparr>)")
    show ?thesis
    proof (cases x)
      case None
      with Inr ex same show ?thesis by (simp add: RenderYamlTemplate_def)
    next
      case (Some xerr)
      with Inr ex same show ?thesis by (simp add: RenderYamlTemplate_def)
    qed
  qed
qed


theorem renderer_contract_witness:
  "RenderYamlTemplate (demo absent) ''backup-create-rolebinding'' ''rb!''
       \<lparr>TemplateData.ResourceName = [], ClusterName = ''spoke1'', RecoveryPath = ''/var/recovery''\<rparr>
     = ([], Some (Errorf ''failed to parse template backup-create-rolebinding: unexpected !''))
   \<and> RenderYamlTemplate (demo absent) ''backup-create-job'' ''job?''
       \<lparr>TemplateData.ResourceName = [], ClusterName = ''spoke1'', RecoveryPath = ''/var/recovery''\<rparr>
     = ([], Some (Errorf ''failed to render template backup-create-job: no value for field''))
   \<and> RenderYamlTemplate (demo absent) ''backup-create-namespace'' ''ns-''
       \<lparr>TemplateData.ResourceName = [], ClusterName = ''spoke1'', RecoveryPath = ''/var/recovery''\<rparr>
     = (''c:ns-backup-create-namespace'', None)"
proof -
  let ?E = "demo absent :: (string, api_server) env"
  let ?d = "\<lparr>TemplateData.ResourceName = [], ClusterName = ''spoke1'', RecoveryPath = ''/var/recovery''\<rparr>"
  have p1: "template_Parse ?E ''backup-create-rolebinding'' (commonTemplates ?E @ ''rb!'') = Inl ''unexpected !''"
    by (simp add: demo_def demo_Parse_def)
  have p2: "template_Parse ?E ''backup-create-job'' (commonTemplates ?E @ ''job?'') = Inr ''c:job?''
      \<and> template_Execute ?E ''c:job?'' (?d\<lparr>TemplateData.ResourceName := ''backup-create-job''\<rparr>)
          = ([], Some ''no value for field'')"
    by (simp add: demo_def demo_Parse_def demo_Execute_def)
  have p3: "template_Parse ?E ''backup-create-namespace'' (commonTemplates ?E @ ''ns-'') = Inr ''c:ns-''
      \<and> template_Execute ?E ''c:ns-'' (?d\<lparr>TemplateData.ResourceName := ''backup-create-namespace''\<rparr>)
          = (''c:ns-backup-create-namespace'', None)"
    by (simp add: demo_def demo_Parse_def demo_Execute_def)
  have r1: "RenderYamlTemplate ?E ''backup-create-rolebinding'' ''rb!'' ?d
     = ([], Some (Errorf (''failed to parse template '' @ ''backup-create-rolebinding'' @ '': '' @ ''unexpected !'')))"
    using renderer_contract [of ?E "''backup-create-rolebinding''" "''rb!''" ?d] p1 by blast
  have r2: "RenderYamlTemplate ?E ''backup-create-job'' ''job?'' ?d
     = ([], Some (Errorf (''failed to render template '' @ ''backup-create-job'' @ '': '' @ ''no value for field'')))"
    using renderer_contract [of ?E "''backup-create-job''" "''job?''" ?d] p2 by blast
  have r3: "RenderYamlTemplate ?E ''backup-create-namespace'' ''ns-'' ?d = (''c:ns-backup-create-namespace'', None)"
    using renderer_contract [of ?E "''backup-create-namespace''" "''ns-''" ?d] p3 by blast
  from r1 r2 r3 show ?thesis by simp
qed

section \<open>The dispatcher\<close>

lemmas demo_defs = LaunchKubernetesObjects_def demo_def hub_def launch_item_def RenderYamlTemplate_def
     demo_Parse_def demo_Execute_def demo_Decode_def demo_ServerResource_def demo_Create_def
     RESTMapping_def NewDeferredDiscoveryRESTMapper_def CreateKubernetesObjects_def emit_def
     create_namespace_def create_serviceaccount_def broken_template_def start_def object_name_def
     Let_def events_since_def created_def expected_def document_of_def

lemma RESTMapping_cached:
  assumes "RESTMapping E m gvk s = (Inr res, m', s')"
  shows "RESTMapping E m' gvk s' = (Inr res, m', s')"
  using assms by (auto simp: RESTMapping_def split: option.splits sum.splits)

lemma launch_item_render_error:
  "RenderYamlTemplate E (ResourceTemplate.ResourceName t) (Template t) nd = (w, Some err) \<Longrightarrow>
   launch_item E cl cfg nd t s = (Some err, emit (EvRender (ResourceTemplate.ResourceName t)) s)"
  by (frule render_error_plain) (simp add: launch_item_def)

lemma launch_item_decode_error:
  "RenderYamlTemplate E (ResourceTemplate.ResourceName t) (Template t) nd = (w, None) \<Longrightarrow>
   yaml_Decode E w = Inl err \<Longrightarrow>
   launch_item E cl cfg nd t s = (Some err, emit (EvRender (ResourceTemplate.ResourceName t)) s)"
  by (simp add: launch_item_def)

lemma launch_item_mapping_error:
  "RenderYamlTemplate E (ResourceTemplate.ResourceName t) (Template t) nd = (w, None) \<Longrightarrow>
   yaml_Decode E w = Inr (obj, gvk) \<Longrightarrow>
   NewDiscoveryClientForConfig E cfg = None \<Longrightarrow>
   ServerResource E gvk (remote s) = Inl err \<Longrightarrow>
   launch_item E cl cfg nd t s =
     (Some err, emit (EvDiscovery gvk) (emit (EvRender (ResourceTemplate.ResourceName t)) s))"
  by (simp add: launch_item_def RESTMapping_def NewDeferredDiscoveryRESTMapper_def emit_def)

lemma launch_item_create_error:
  "RenderYamlTemplate E (ResourceTemplate.ResourceName t) (Template t) nd = (w, None) \<Longrightarrow>
   yaml_Decode E w = Inr (obj, gvk) \<Longrightarrow>
   NewDiscoveryClientForConfig E cfg = None \<Longrightarrow>
   ServerResource E gvk (remote s) = Inr res \<Longrightarrow>
   Create E \<lparr>GroupVersionResource.Group = GroupVersionKind.Group gvk,
             Version = GroupVersionKind.Version gvk, Resource = res\<rparr> cl obj (remote s) = (Some err, r') \<Longrightarrow>
   fst (launch_item E cl cfg nd t s) = Some err"
  by (simp add: launch_item_def RESTMapping_def NewDeferredDiscoveryRESTMapper_def emit_def
        CreateKubernetesObjects_def)

lemma Launch_events:
  assumes "LaunchKubernetesObjects E c cl ts s = (r, s')"
  shows "\<exists>evs. trace s' = trace s @ evs
           \<and> (\<forall>ev\<in>set evs. \<not> is_delete ev)
           \<and> prefix (created evs) (expected E cl (BackupPath c) ts)
           \<and> prefix (filter is_render evs) (map (\<lambda>t. EvRender (ResourceTemplate.ResourceName t)) ts)
           \<and> (r = None \<longrightarrow>
                created evs = expected E cl (BackupPath c) ts
                \<and> filter is_render evs = map (\<lambda>t. EvRender (ResourceTemplate.ResourceName t)) ts
                \<and> length (filter is_discovery evs) = length ts)"
proof (cases "BuildConfigFromFlags E (KubeconfigPath c)")
  case (Inl err)
  with assms have "r = Some err" "s' = s" by (simp_all add: LaunchKubernetesObjects_def)
  then show ?thesis by (simp add: created_def)
next
  case (Inr config)
  with assms have "launch_loop E cl config
      \<lparr>TemplateData.ResourceName = [], ClusterName = cl, RecoveryPath = BackupPath c\<rparr> ts s = (r, s')"
    by (simp add: LaunchKubernetesObjects_def)
  from launch_loop_events [OF this] show ?thesis
    by (simp add: expected_def)
qed

lemma replay_append: "replay E r (xs @ ys) = replay E (replay E r xs) ys"
  by (induction E r xs rule: replay.induct) simp_all

lemma launch_item_replay:
  assumes "launch_item E cl cfg nd t s = (r, s')"
  shows "remote s' = replay E (remote s) (events_since s s')"
proof -
  obtain w err where rn: "RenderYamlTemplate E (ResourceTemplate.ResourceName t) (Template t) nd = (w, err)"
    by (cases "RenderYamlTemplate E (ResourceTemplate.ResourceName t) (Template t) nd")
  show ?thesis
  proof (cases err)
    case (Some e)
    then have "\<not> IsAlreadyExists e" using rn render_error_plain by blast
    with Some rn assms show ?thesis
      by (auto simp: launch_item_def emit_def events_since_def)
  next
    case None
    with rn assms show ?thesis
      by (auto simp: launch_item_def emit_def Let_def events_since_def RESTMapping_def
            NewDeferredDiscoveryRESTMapper_def CreateKubernetesObjects_def
          split: sum.splits option.splits prod.splits)
  qed
qed

lemma launch_item_trace:
  assumes "launch_item E cl cfg nd t s = (r, s')"
  shows "\<exists>evs. trace s' = trace s @ evs"
  using launch_item_cases [OF assms] by auto

lemma launch_loop_replay:
  assumes "launch_loop E cl cfg nd ts s = (r, s')"
  shows "remote s' = replay E (remote s) (events_since s s')"
  using assms
proof (induction ts arbitrary: nd s)
  case Nil
  then show ?case by (simp add: events_since_def)
next
  case (Cons t ts)
  let ?nd = "nd\<lparr>TemplateData.ResourceName := ResourceTemplate.ResourceName t\<rparr>"
  obtain r1 s1 where item: "launch_item E cl cfg ?nd t s = (r1, s1)"
    by (cases "launch_item E cl cfg ?nd t s")
  show ?case
  proof (cases r1)
    case (Some err)
    with item Cons.prems have "s' = s1" by simp
    with launch_item_replay [OF item] show ?thesis by simp
  next
    case None
    with item Cons.prems have rest: "launch_loop E cl cfg ?nd ts s1 = (r, s')" by simp
    from launch_item_trace [OF item] obtain evs1 where t1: "trace s1 = trace s @ evs1" by blast
    from launch_loop_events [OF rest] obtain evs where t2: "trace s' = trace s1 @ evs" by blast
    have e1: "events_since s s1 = evs1" using t1 by (simp add: events_since_def)
    have e2: "events_since s1 s' = evs" using t2 by (simp add: events_since_def)
    have e: "events_since s s' = evs1 @ evs" using t1 t2 by (simp add: events_since_def)
    from launch_item_replay [OF item] Cons.IH [OF rest] show ?thesis
      by (simp add: e e1 e2 replay_append)
  qed
qed

lemma Launch_replay:
  assumes "LaunchKubernetesObjects E c cl ts s = (r, s')"
  shows "remote s' = replay E (remote s) (events_since s s')"
proof (cases "BuildConfigFromFlags E (KubeconfigPath c)")
  case (Inl err)
  with assms have "s' = s" by (simp add: LaunchKubernetesObjects_def)
  then show ?thesis by (simp add: events_since_def)
next
  case (Inr config)
  with assms have "launch_loop E cl config
      \<lparr>TemplateData.ResourceName = [], ClusterName = cl, RecoveryPath = BackupPath c\<rparr> ts s = (r, s')"
    by (simp add: LaunchKubernetesObjects_def)
  then show ?thesis by (rule launch_loop_replay)
qed

lemma render_error_names:
  assumes "RenderYamlTemplate E n b d = (w, Some err)"
  shows "\<exists>msg. err = Errorf (''failed to parse template '' @ n @ '': '' @ msg)
             \<or> err = Errorf (''failed to render template '' @ n @ '': '' @ msg)"
proof (cases "template_Parse E n (commonTemplates E @ b)")
  case (Inl perr)
  with assms have "err = Errorf (''failed to parse template '' @ n @ '': '' @ perr)"
    by (simp add: RenderYamlTemplate_def)
  then show ?thesis by blast
next
  case (Inr tmpl)
  obtain w' x where ex: "template_Execute E tmpl (d\<lparr>TemplateData.ResourceName := n\<rparr>) = (w', x)"
    by (cases "template_Execute E tmpl (d\<lparr>TemplateData.ResourceName := n\<rparr>)")
  show ?thesis
  proof (cases x)
    case None
    with Inr ex assms show ?thesis by (simp add: RenderYamlTemplate_def)
  next
    case (Some xerr)
    with Inr ex assms have "err = Errorf (''failed to render template '' @ n @ '': '' @ xerr)"
      by (simp add: RenderYamlTemplate_def)
    then show ?thesis by blast
  qed
qed

lemma launch_item_error_source:
  assumes "launch_item E cl cfg nd t s = (Some err, s')"
  shows "(\<exists>w. RenderYamlTemplate E (ResourceTemplate.ResourceName t) (Template t) nd = (w, Some err))
       \<or> (\<exists>w. RenderYamlTemplate E (ResourceTemplate.ResourceName t) (Template t) nd = (w, None)
              \<and> yaml_Decode E w = Inl err)
       \<or> (\<exists>w obj gvk. RenderYamlTemplate E (ResourceTemplate.ResourceName t) (Template t) nd = (w, None)
              \<and> yaml_Decode E w = Inr (obj, gvk)
              \<and> (NewDiscoveryClientForConfig E cfg = Some err
                  \<or> ServerResource E gvk (remote s) = Inl err
                  \<or> (\<exists>res. ServerResource E gvk (remote s) = Inr res
                        \<and> fst (Create E \<lparr>GroupVersionResource.Group = GroupVersionKind.Group gvk,
                                          Version = GroupVersionKind.Version gvk, Resource = res\<rparr>
                                  cl obj (remote s)) = Some err)))"
proof -
  obtain w e where rn: "RenderYamlTemplate E (ResourceTemplate.ResourceName t) (Template t) nd = (w, e)"
    by (cases "RenderYamlTemplate E (ResourceTemplate.ResourceName t) (Template t) nd")
  show ?thesis
  proof (cases e)
    case (Some e')
    then have "\<not> IsAlreadyExists e'" using rn render_error_plain by blast
    with Some rn assms show ?thesis
      by (auto simp: launch_item_def)
  next
    case None
    with rn assms show ?thesis
      by (auto simp: launch_item_def emit_def Let_def RESTMapping_def
            NewDeferredDiscoveryRESTMapper_def CreateKubernetesObjects_def
          split: sum.splits option.splits prod.splits)
  qed
qed

text \<open>
  Claim C1 (idempotent create). The claim asks that a second dispatch of the same
  sequence returns no error. Run on a remote side that answers "already exists" for an
  object that is there, the first dispatch succeeds and the second returns the "already
  exists" error of its first create call; the remote objects are those of the first run.
  The test \<open>errors.IsAlreadyExists\<close> of the loop is applied to the error of the renderer,
  which is never an API status error (\<open>render_error_plain\<close>), and not to the error of the
  create call.
\<close>

theorem second_dispatch_fails:
  "fst (LaunchKubernetesObjects (demo absent) hub ''spoke1'' [create_namespace, create_serviceaccount] start)
     = None
   \<and> fst (LaunchKubernetesObjects (demo absent) hub ''spoke1'' [create_namespace, create_serviceaccount]
       (snd (LaunchKubernetesObjects (demo absent) hub ''spoke1''
               [create_namespace, create_serviceaccount] start)))
     = Some (StatusError StatusReasonAlreadyExists ''c:ns-backup-create-namespace'')
   \<and> remote (snd (LaunchKubernetesObjects (demo absent) hub ''spoke1'' [create_namespace, create_serviceaccount]
       (snd (LaunchKubernetesObjects (demo absent) hub ''spoke1''
               [create_namespace, create_serviceaccount] start))))
     = remote (snd (LaunchKubernetesObjects (demo absent) hub ''spoke1''
               [create_namespace, create_serviceaccount] start))"
  by (simp add: demo_defs)

text \<open>
  Claim C5 (order preservation). The create calls a dispatch issues against the remote API
  are the documents of the templates in list order. The calls recorded in the trace, in
  the order they were made, are a prefix of the templates' documents, each in the
  namespace of the target cluster, and all of them when the dispatch returns no error; and
  the remote side after the dispatch is what these very calls, made in that order, turn
  the remote side before it into.
\<close>

theorem creates_in_list_order:
  assumes "LaunchKubernetesObjects E c clusterName template s = (r, s')"
  shows "prefix (created (events_since s s')) (expected E clusterName (BackupPath c) template)
       \<and> (r = None \<longrightarrow> created (events_since s s') = expected E clusterName (BackupPath c) template)
       \<and> remote s' = replay E (remote s) (events_since s s')"
proof -
  from Launch_events [OF assms] obtain evs where
    "trace s' = trace s @ evs"
    "prefix (created evs) (expected E clusterName (BackupPath c) template)"
    "r = None \<longrightarrow> created evs = expected E clusterName (BackupPath c) template"
    by blast
  then have "prefix (created (events_since s s')) (expected E clusterName (BackupPath c) template)
       \<and> (r = None \<longrightarrow> created (events_since s s') = expected E clusterName (BackupPath c) template)"
    by (simp add: events_since_append)
  with Launch_replay [OF assms] show ?thesis
    by simp
qed

theorem creates_in_list_order_witness:
  "fst (LaunchKubernetesObjects (demo absent) hub ''spoke1'' [create_namespace, create_serviceaccount] start)
     = None
   \<and> created (events_since start
        (snd (LaunchKubernetesObjects (demo absent) hub ''spoke1''
                [create_namespace, create_serviceaccount] start)))
     = [Some (''spoke1'', [(''metadata'', JObj [(''name'', JStr ''c:ns-backup-create-namespace'')])]),
        Some (''spoke1'', [(''metadata'', JObj [(''name'', JStr ''c:sa-backup-create-serviceaccount'')])])]
   \<and> map (\<lambda>kv. snd (snd (fst kv)))
        (objects (remote (snd (LaunchKubernetesObjects (demo absent) hub ''spoke1''
                [create_namespace, create_serviceaccount] start))))
     = [''c:ns-backup-create-namespace'', ''c:sa-backup-create-serviceaccount'']"
proof -
  let ?E = "demo absent :: (string, api_server) env"
  let ?run = "LaunchKubernetesObjects ?E hub ''spoke1''
                [create_namespace, create_serviceaccount] start"
  let ?gvk = "\<lparr>GroupVersionKind.Group = ''action.open-cluster-management.io'',
               Version = ''v1beta1'', Kind = ''ManagedClusterAction''\<rparr>"
  let ?gvr = "\<lparr>GroupVersionResource.Group = ''action.open-cluster-management.io'',
               Version = ''v1beta1'', Resource = ''managedclusteractions''\<rparr>"
  let ?ns = "[(''metadata'', JObj [(''name'', JStr ''c:ns-backup-create-namespace'')])]"
  let ?sa = "[(''metadata'', JObj [(''name'', JStr ''c:sa-backup-create-serviceaccount'')])]"
  let ?evs = "[EvRender ''backup-create-namespace'', EvDiscovery ?gvk, EvCreate ''spoke1'' ?gvr ?ns,
               EvRender ''backup-create-serviceaccount'', EvDiscovery ?gvk, EvCreate ''spoke1'' ?gvr ?sa]"
  have f: "fst ?run = None"
    by (simp add: demo_defs)
  then have h: "?run = (None, snd ?run)"
    by (simp add: prod_eq_iff)
  have e: "expected ?E ''spoke1'' (BackupPath hub) [create_namespace, create_serviceaccount]
     = [Some (''spoke1'', ?ns), Some (''spoke1'', ?sa)]"
    by (simp add: demo_defs)
  have ev: "events_since start (snd ?run) = ?evs"
    by (simp add: demo_defs)
  have rp: "map (\<lambda>kv. snd (snd (fst kv))) (objects (replay ?E (remote start) ?evs))
     = [''c:ns-backup-create-namespace'', ''c:sa-backup-create-serviceaccount'']"
    by (simp add: demo_def demo_Create_def start_def object_name_def)
  from creates_in_list_order [OF h] have
    c: "created (events_since start (snd ?run)) = expected ?E ''spoke1'' (BackupPath hub)
          [create_namespace, create_serviceaccount]"
    and r: "remote (snd ?run) = replay ?E (remote start) (events_since start (snd ?run))"
    by simp_all
  from c e f r ev rp show ?thesis
    by simp
qed

text \<open>
  Claim C8 (resolution caching), as the code has it. The mapper is built anew, with an
  empty cache, for every template, so each template that is resolved costs one discovery
  lookup: a dispatch that returns no error has issued as many lookups as there are
  templates, whether or not their kinds repeat. (A mapper that is kept does answer the
  second resolution from its cache: \<open>RESTMapping_cached\<close>.)
\<close>

theorem one_discovery_per_template:
  assumes "LaunchKubernetesObjects E c clusterName template s = (None, s')"
  shows "length (filter is_discovery (events_since s s')) = length template"
proof -
  from Launch_events [OF assms] obtain evs where
    "trace s' = trace s @ evs" "length (filter is_discovery evs) = length template"
    by blast
  then show ?thesis
    by (simp add: events_since_append)
qed

theorem one_discovery_per_template_witness:
  "length (filter is_discovery (events_since start
      (snd (LaunchKubernetesObjects (demo absent) hub ''spoke1''
              [create_namespace, create_serviceaccount] start)))) = 2"
proof -
  let ?run = "LaunchKubernetesObjects (demo absent) hub ''spoke1''
                [create_namespace, create_serviceaccount] start"
  have f: "fst ?run = None"
    by (simp add: demo_defs)
  then have h: "?run = (None, snd ?run)"
    by (simp add: prod_eq_iff)
  from one_discovery_per_template [OF h] show ?thesis
    by simp
qed

text \<open>
  Claim C8 as stated fails. Two templates of the one kind \<open>ManagedClusterAction\<close> are
  dispatched; the discovery service is asked twice for that kind.
\<close>

theorem same_kind_resolved_twice:
  "filter is_discovery (events_since start
      (snd (LaunchKubernetesObjects (demo absent) hub ''spoke1''
              [create_namespace, create_serviceaccount] start)))
   = [EvDiscovery \<lparr>GroupVersionKind.Group = ''action.open-cluster-management.io'',
                    Version = ''v1beta1'', Kind = ''ManagedClusterAction''\<rparr>,
      EvDiscovery \<lparr>GroupVersionKind.Group = ''action.open-cluster-management.io'',
                    Version = ''v1beta1'', Kind = ''ManagedClusterAction''\<rparr>]"
  by (simp add: demo_defs)


lemma launch_item_failed_events:
  assumes "launch_item E cl cfg nd t s = (Some err, s')"
  shows "\<exists>evs. trace s' = trace s @ evs
           \<and> filter is_render evs = [EvRender (ResourceTemplate.ResourceName t)]
           \<and> length (created evs) \<le> 1
           \<and> (\<forall>ev\<in>set evs. \<not> is_delete ev)"
  using launch_item_cases [OF assms]
  by (elim disjE exE conjE) (simp_all add: created_def)

text \<open>
  Claim C4 (abort on failure), as the code has it. When the templates before \<open>item\<close> have
  been dispatched without error and the processing of \<open>item\<close> fails, the dispatch returns
  the error of that step and stops in the state that step left. Nothing after \<open>item\<close> is
  rendered; the creates made are those of the templates before it, followed by at most the
  failed attempt for \<open>item\<close>; no delete call is issued, and the remote side is what the
  calls of the trace made of it, so what was created stays. The error returned is the
  failing stage's own, unwrapped: a rendering error, whose message names the template, or
  exactly what the decoder, the discovery client, the discovery service or the create call
  returned.
\<close>

theorem abort_on_failure:
  assumes cfg: "BuildConfigFromFlags E (KubeconfigPath c) = Inr config"
    and pre: "LaunchKubernetesObjects E c clusterName pre s = (None, s1)"
    and fail: "launch_item E clusterName config
                 \<lparr>TemplateData.ResourceName = ResourceTemplate.ResourceName item,
                  ClusterName = clusterName, RecoveryPath = BackupPath c\<rparr> item s1 = (Some err, s2)"
  shows "LaunchKubernetesObjects E c clusterName (pre @ item # post) s = (Some err, s2)
       \<and> filter is_render (events_since s s2) =
           map (\<lambda>t. EvRender (ResourceTemplate.ResourceName t)) (pre @ [item])
       \<and> created (events_since s s2) =
           expected E clusterName (BackupPath c) pre @ created (events_since s1 s2)
       \<and> length (created (events_since s1 s2)) \<le> 1
       \<and> (\<forall>ev\<in>set (events_since s s2). \<not> is_delete ev)
       \<and> remote s2 = replay E (remote s) (events_since s s2)
       \<and> ((\<exists>w msg.
              RenderYamlTemplate E (ResourceTemplate.ResourceName item) (Template item)
                \<lparr>TemplateData.ResourceName = ResourceTemplate.ResourceName item,
                 ClusterName = clusterName, RecoveryPath = BackupPath c\<rparr> = (w, Some err)
              \<and> (err = Errorf (''failed to parse template '' @ ResourceTemplate.ResourceName item
                                 @ '': '' @ msg)
                  \<or> err = Errorf (''failed to render template '' @ ResourceTemplate.ResourceName item
                                 @ '': '' @ msg)))
          \<or> (\<exists>w.
              RenderYamlTemplate E (ResourceTemplate.ResourceName item) (Template item)
                \<lparr>TemplateData.ResourceName = ResourceTemplate.ResourceName item,
                 ClusterName = clusterName, RecoveryPath = BackupPath c\<rparr> = (w, None)
              \<and> yaml_Decode E w = Inl err)
          \<or> (\<exists>w obj gvk.
              RenderYamlTemplate E (ResourceTemplate.ResourceName item) (Template item)
                \<lparr>TemplateData.ResourceName = ResourceTemplate.ResourceName item,
                 ClusterName = clusterName, RecoveryPath = BackupPath c\<rparr> = (w, None)
              \<and> yaml_Decode E w = Inr (obj, gvk)
              \<and> (NewDiscoveryClientForConfig E config = Some err
                  \<or> ServerResource E gvk (remote s1) = Inl err
                  \<or> (\<exists>res. ServerResource E gvk (remote s1) = Inr res
                        \<and> fst (Create E \<lparr>GroupVersionResource.Group = GroupVersionKind.Group gvk,
                                          Version = GroupVersionKind.Version gvk, Resource = res\<rparr>
                                  clusterName obj (remote s1)) = Some err))))"
proof -
  let ?nd = "\<lparr>TemplateData.ResourceName = [], ClusterName = clusterName, RecoveryPath = BackupPath c\<rparr>"
  let ?nd' = "\<lparr>TemplateData.ResourceName = ResourceTemplate.ResourceName item,
               ClusterName = clusterName, RecoveryPath = BackupPath c\<rparr>"
  have loop_pre: "launch_loop E clusterName config ?nd pre s = (None, s1)"
    using pre cfg by (simp add: LaunchKubernetesObjects_def)
  have "launch_loop E clusterName config ?nd (pre @ item # post) s =
          launch_loop E clusterName config ?nd (item # post) s1"
    by (simp add: launch_loop_append loop_pre)
  also have "\<dots> = (Some err, s2)"
    using fail by simp
  finally have result: "LaunchKubernetesObjects E c clusterName (pre @ item # post) s = (Some err, s2)"
    using cfg by (simp add: LaunchKubernetesObjects_def)
  from Launch_events [OF pre] obtain evs1 where
    t1: "trace s1 = trace s @ evs1" and d1: "\<forall>ev\<in>set evs1. \<not> is_delete ev"
    and c1: "created evs1 = expected E clusterName (BackupPath c) pre"
    and r1: "filter is_render evs1 = map (\<lambda>t. EvRender (ResourceTemplate.ResourceName t)) pre"
    by auto
  from launch_item_failed_events [OF fail] obtain evs2 where
    t2: "trace s2 = trace s1 @ evs2"
    and r2: "filter is_render evs2 = [EvRender (ResourceTemplate.ResourceName item)]"
    and c2: "length (created evs2) \<le> 1" and d2: "\<forall>ev\<in>set evs2. \<not> is_delete ev"
    by auto
  have e12: "events_since s s2 = evs1 @ evs2"
    using t1 t2 by (simp add: events_since_def)
  have e2: "events_since s1 s2 = evs2"
    using t2 by (simp add: events_since_def)
  have trace_part: "filter is_render (events_since s s2) =
           map (\<lambda>t. EvRender (ResourceTemplate.ResourceName t)) (pre @ [item])
       \<and> created (events_since s s2) =
           expected E clusterName (BackupPath c) pre @ created (events_since s1 s2)
       \<and> length (created (events_since s1 s2)) \<le> 1
       \<and> (\<forall>ev\<in>set (events_since s s2). \<not> is_delete ev)"
    using r1 r2 c1 c2 d1 d2 by (auto simp: e12 e2 created_append)
  have remote_part: "remote s2 = replay E (remote s) (events_since s s2)"
    by (rule Launch_replay [OF result])
  note src = launch_item_error_source [OF fail]
  have source_part:
    "(\<exists>w msg.
        RenderYamlTemplate E (ResourceTemplate.ResourceName item) (Template item) ?nd' = (w, Some err)
        \<and> (err = Errorf (''failed to parse template '' @ ResourceTemplate.ResourceName item
                           @ '': '' @ msg)
            \<or> err = Errorf (''failed to render template '' @ ResourceTemplate.ResourceName item
                           @ '': '' @ msg)))
     \<or> (\<exists>w.
        RenderYamlTemplate E (ResourceTemplate.ResourceName item) (Template item) ?nd' = (w, None)
        \<and> yaml_Decode E w = Inl err)
     \<or> (\<exists>w obj gvk.
        RenderYamlTemplate E (ResourceTemplate.ResourceName item) (Template item) ?nd' = (w, None)
        \<and> yaml_Decode E w = Inr (obj, gvk)
        \<and> (NewDiscoveryClientForConfig E config = Some err
            \<or> ServerResource E gvk (remote s1) = Inl err
            \<or> (\<exists>res. ServerResource E gvk (remote s1) = Inr res
                  \<and> fst (Create E \<lparr>GroupVersionResource.Group = GroupVersionKind.Group gvk,
                                    Version = GroupVersionKind.Version gvk, Resource = res\<rparr>
                            clusterName obj (remote s1)) = Some err)))"
  proof -
    from src consider
      (render) w where
        "RenderYamlTemplate E (ResourceTemplate.ResourceName item) (Template item) ?nd' = (w, Some err)"
      | (later) "(\<exists>w.
        RenderYamlTemplate E (ResourceTemplate.ResourceName item) (Template item) ?nd' = (w, None)
        \<and> yaml_Decode E w = Inl err)
     \<or> (\<exists>w obj gvk.
        RenderYamlTemplate E (ResourceTemplate.ResourceName item) (Template item) ?nd' = (w, None)
        \<and> yaml_Decode E w = Inr (obj, gvk)
        \<and> (NewDiscoveryClientForConfig E config = Some err
            \<or> ServerResource E gvk (remote s1) = Inl err
            \<or> (\<exists>res. ServerResource E gvk (remote s1) = Inr res
                  \<and> fst (Create E \<lparr>GroupVersionResource.Group = GroupVersionKind.Group gvk,
                                    Version = GroupVersionKind.Version gvk, Resource = res\<rparr>
                            clusterName obj (remote s1)) = Some err)))"
      by blast
    then show ?thesis
    proof cases
      case render
      from render_error_names [OF render] render show ?thesis by blast
    next
      case later
      then show ?thesis by blast
    qed
  qed
  from result trace_part remote_part source_part show ?thesis
    by blast
qed

theorem abort_on_failure_witness:
  "LaunchKubernetesObjects (demo absent) hub ''spoke1''
       ([create_namespace] @ broken_template # [create_serviceaccount]) start
     = (Some (Errorf ''failed to parse template backup-create-rolebinding: unexpected !''),
        emit (EvRender ''backup-create-rolebinding'')
          (snd (LaunchKubernetesObjects (demo absent) hub ''spoke1'' [create_namespace] start)))
   \<and> filter is_render (events_since start
         (emit (EvRender ''backup-create-rolebinding'')
            (snd (LaunchKubernetesObjects (demo absent) hub ''spoke1'' [create_namespace] start))))
     = [EvRender ''backup-create-namespace'', EvRender ''backup-create-rolebinding'']
   \<and> created (events_since start
         (emit (EvRender ''backup-create-rolebinding'')
            (snd (LaunchKubernetesObjects (demo absent) hub ''spoke1'' [create_namespace] start))))
     = [Some (''spoke1'', [(''metadata'', JObj [(''name'', JStr ''c:ns-backup-create-namespace'')])])]"
proof -
  let ?E = "demo absent :: (string, api_server) env"
  let ?pre = "LaunchKubernetesObjects ?E hub ''spoke1'' [create_namespace] start"
  let ?err = "Errorf ''failed to parse template backup-create-rolebinding: unexpected !''"
  let ?s2 = "emit (EvRender ''backup-create-rolebinding'') (snd ?pre)"
  have cfg: "BuildConfigFromFlags ?E (KubeconfigPath hub) = Inr (RestConfig ''kubeconfig'')"
    by (simp add: demo_def hub_def)
  have "fst ?pre = None"
    by (simp add: demo_defs)
  then have pre: "?pre = (None, snd ?pre)"
    by (simp add: prod_eq_iff)
  have fail: "launch_item ?E ''spoke1'' (RestConfig ''kubeconfig'')
                 \<lparr>TemplateData.ResourceName = ResourceTemplate.ResourceName broken_template,
                  ClusterName = ''spoke1'', RecoveryPath = BackupPath hub\<rparr> broken_template (snd ?pre)
              = (Some ?err, ?s2)"
  proof -
    have n: "ResourceTemplate.ResourceName broken_template = ''backup-create-rolebinding''"
      by (simp add: broken_template_def)
    have "RenderYamlTemplate ?E (ResourceTemplate.ResourceName broken_template) (Template broken_template)
            \<lparr>TemplateData.ResourceName = ResourceTemplate.ResourceName broken_template,
             ClusterName = ''spoke1'', RecoveryPath = BackupPath hub\<rparr> = ([], Some ?err)"
      by (simp add: RenderYamlTemplate_def demo_def demo_Parse_def broken_template_def)
    from launch_item_render_error [OF this] n show ?thesis
      by simp
  qed
  have exp: "expected ?E ''spoke1'' (BackupPath hub) [create_namespace]
     = [Some (''spoke1'', [(''metadata'', JObj [(''name'', JStr ''c:ns-backup-create-namespace'')])])]"
    by (simp add: demo_defs)
  have none: "created (events_since (snd ?pre) ?s2) = []"
    by (simp add: created_def events_since_def emit_def)
  note a = abort_on_failure [OF cfg pre fail, of "[create_serviceaccount]"]
  from a have a1: "LaunchKubernetesObjects ?E hub ''spoke1''
       ([create_namespace] @ broken_template # [create_serviceaccount]) start = (Some ?err, ?s2)"
    by (rule conjunct1)
  from a have a2: "filter is_render (events_since start ?s2) =
           map (\<lambda>t. EvRender (ResourceTemplate.ResourceName t)) ([create_namespace] @ [broken_template])"
    by (rule conjunct1 [OF conjunct2])
  from a have a3: "created (events_since start ?s2) =
           expected ?E ''spoke1'' (BackupPath hub) [create_namespace] @ created (events_since (snd ?pre) ?s2)"
    by (rule conjunct1 [OF conjunct2 [OF conjunct2]])
  from a1 a2 a3 exp none show ?thesis
    by (simp add: create_namespace_def broken_template_def)
qed

text \<open>
  Claim C4 as stated fails in its clause that the returned error identifies the failing
  step. A dispatch whose first template does not decode and a dispatch whose second
  template, another one, does not decode return the same error: the decoder's, with
  nothing added that tells the step or the template.
\<close>

theorem error_does_not_identify_step:
  "fst (LaunchKubernetesObjects (demo absent) hub ''spoke1'' [undecodable_job, create_namespace] start)
     = Some (Errorf ''yaml: did not find expected key'')
   \<and> filter is_render (events_since start
         (snd (LaunchKubernetesObjects (demo absent) hub ''spoke1''
                 [undecodable_job, create_namespace] start)))
       = [EvRender ''backup-create-job'']
   \<and> fst (LaunchKubernetesObjects (demo absent) hub ''spoke1''
            [create_namespace, undecodable_rolebinding] start)
     = Some (Errorf ''yaml: did not find expected key'')
   \<and> filter is_render (events_since start
         (snd (LaunchKubernetesObjects (demo absent) hub ''spoke1''
                 [create_namespace, undecodable_rolebinding] start)))
       = [EvRender ''backup-create-namespace'', EvRender ''backup-create-rolebinding'']"
  by (simp add: demo_defs undecodable_job_def undecodable_rolebinding_def)

end
